theory Spec2Isabelle
  imports Main "HOL-Library.Word" "HOL-Library.Sublist"
begin

section \<open>The WebRTC manager of neko: data model\<close>

text \<open>
  The development follows \<^verbatim>\<open>server/internal/webrtc/webrtc.go\<close>. Values of the
  pion/webrtc library, of \<^verbatim>\<open>encoding/json\<close> and of the session packages are not
  part of that file: their results are parameters of the model (the records \<open>pion\<close> and
  \<open>Session\<close> below), and every call the manager makes on them is written to a trace of
  events, in program order.
\<close>

subsection \<open>Errors and log entries\<close>

text \<open>
  A Go \<^verbatim>\<open>error\<close> is either the sentinel \<^verbatim>\<open>io.ErrClosedPipe\<close>, which the code
  compares by identity, or any other error value, known by its message.
\<close>

datatype error = ErrClosedPipe | Error string

datatype level = Info | Warn | Panic

subsection \<open>Codec parameters\<close>

record RTPCodecCapability =
  MimeType :: string
  ClockRate :: "32 word"
  Channels :: "16 word"
  SDPFmtpLine :: string
  RTCPFeedback :: "(string \<times> string) list"

record RTPCodecParameters =
  Capability :: RTPCodecCapability
  PayloadType :: "8 word"

text \<open>The zero value of \<^verbatim>\<open>var codec webrtc.RTPCodecParameters\<close>.\<close>

definition zero_codec :: RTPCodecParameters where
  "zero_codec =
     \<lparr>Capability = \<lparr>MimeType = [], ClockRate = 0, Channels = 0, SDPFmtpLine = [],
        RTCPFeedback = []\<rparr>, PayloadType = 0\<rparr>"

text \<open>
  A \<^verbatim>\<open>TrackLocalStaticSample\<close> as the library builds it from a capability, an id and a
  stream id.
\<close>

record Track =
  track_codec :: RTPCodecCapability
  track_id :: string
  track_stream :: string

record Sample =
  Data :: "8 word list"
  Duration :: int

subsection \<open>Configuration\<close>

record ICEServer =
  URLs :: "string list"
  Username :: string
  Credential :: string

record WebRTC_config =
  ICELite :: bool
  ICEServers :: "ICEServer list"
  EphemeralMin :: "16 word"
  EphemeralMax :: "16 word"
  NAT1To1IPs :: "string list"

datatype SDPSemantics = UnifiedPlan | PlanB | UnifiedPlanWithFallback

text \<open>\<^verbatim>\<open>webrtc.Configuration\<close>: a field left out of the literal is its zero value, the
  empty list for \<open>cfg_ICEServers\<close>.\<close>

record Configuration =
  cfg_ICEServers :: "ICEServer list"
  cfg_SDPSemantics :: SDPSemantics

datatype ICECandidateType = Host | Srflx | Prflx | Relay

text \<open>
  The \<^verbatim>\<open>SettingEngine\<close> is the list of setter calls made on it, in order; durations
  are nanoseconds, as \<^verbatim>\<open>time.Duration\<close>.
\<close>

datatype setting =
    SetLite bool
  | SetEphemeralUDPPortRange "16 word" "16 word"
  | SetNAT1To1IPs "string list" ICECandidateType
  | SetICETimeouts int int int
  | SetSRTPReplayProtectionWindow nat

type_synonym SettingEngine = "setting list"

definition Second :: int where
  "Second = 1000000000"

datatype RTPCodecType = RTPCodecTypeAudio | RTPCodecTypeVideo

text \<open>The \<^verbatim>\<open>MediaEngine\<close> is the list of codecs registered on it, in order.\<close>

type_synonym MediaEngine = "(RTPCodecParameters \<times> RTPCodecType) list"

record API =
  api_engine :: MediaEngine
  api_settings :: SettingEngine

datatype SDPType = SDPTypeOffer | SDPTypePranswer | SDPTypeAnswer | SDPTypeRollback

record SessionDescription =
  sd_Type :: SDPType
  SDP :: string

record ICECandidate =
  Foundation :: string
  Priority :: "32 word"
  Address :: string
  Port :: "16 word"
  Typ :: ICECandidateType

datatype PeerConnectionState =
    PeerConnectionStateNew
  | PeerConnectionStateConnecting
  | PeerConnectionStateConnected
  | PeerConnectionStateDisconnected
  | PeerConnectionStateFailed
  | PeerConnectionStateClosed

text \<open>Handles of library objects: a peer connection and an RTP sender.\<close>

type_synonym PeerConnection = nat
type_synonym RTPSender = nat

subsection \<open>The library, as the manager calls it\<close>

text \<open>
  One field for each library function the file calls, giving the call's result.
  \<open>Marshal_ToJSON c\<close> is \<^verbatim>\<open>json.Marshal(c.ToJSON())\<close>; \<open>Read s k n\<close> is the result
  (bytes read, error) of the \<open>k\<close>-th \<^verbatim>\<open>Read\<close> on sender \<open>s\<close> with a buffer of \<open>n\<close>
  bytes.
\<close>

record pion =
  NewTrackLocalStaticSample :: "RTPCodecCapability \<Rightarrow> string \<Rightarrow> string \<Rightarrow> error + Track"
  WriteSample :: "Track option \<Rightarrow> Sample \<Rightarrow> error option"
  RegisterDefaultInterceptors :: "MediaEngine \<Rightarrow> error option"
  NewPeerConnection :: "API \<Rightarrow> Configuration \<Rightarrow> error + PeerConnection"
  CreateDataChannel :: "PeerConnection \<Rightarrow> string \<Rightarrow> bool \<Rightarrow> error option"
  AddTrack :: "PeerConnection \<Rightarrow> Track option \<Rightarrow> error + RTPSender"
  CreateOffer :: "PeerConnection \<Rightarrow> error + SessionDescription"
  SetLocalDescription :: "PeerConnection \<Rightarrow> SessionDescription \<Rightarrow> error option"
  Marshal_ToJSON :: "ICECandidate \<Rightarrow> error + string"
  Read :: "RTPSender \<Rightarrow> nat \<Rightarrow> nat \<Rightarrow> nat \<times> error option"

subsection \<open>The manager\<close>

record WebRTCManager =
  videoTrack :: "Track option"
  audioTrack :: "Track option"
  videoCodec :: RTPCodecParameters
  audioCodec :: RTPCodecParameters
  config :: WebRTC_config

record Peer =
  peer_id :: string
  peer_api :: API
  peer_engine :: MediaEngine
  peer_manager :: WebRTCManager
  peer_settings :: SettingEngine
  peer_connection :: PeerConnection
  peer_configuration :: Configuration

section \<open>createTrack\<close>

text \<open>
  The result is the Go triple (track, codec, error); the track is \<open>None\<close> for
  \<^verbatim>\<open>nil\<close>. \<open>codec_of\<close> is the \<^verbatim>\<open>switch\<close>: the codec it assigns for the
  name, \<open>None\<close> in the \<^verbatim>\<open>default\<close> case, where
  \<^verbatim>\<open>fmt.Errorf("unknown codec %s", codecName)\<close> is the message followed by the name.
\<close>

definition fb :: "(string \<times> string) list" where
  "fb = []"

definition codec_of :: "string \<Rightarrow> RTPCodecParameters option" where
  "codec_of codecName =
    (if codecName = ''VP8'' then
       Some \<lparr>Capability = \<lparr>MimeType = ''video/VP8'', ClockRate = 90000, Channels = 0,
               SDPFmtpLine = [], RTCPFeedback = fb\<rparr>, PayloadType = 96\<rparr>
     else if codecName = ''VP9'' then
       Some \<lparr>Capability = \<lparr>MimeType = ''video/VP9'', ClockRate = 90000, Channels = 0,
               SDPFmtpLine = [], RTCPFeedback = fb\<rparr>, PayloadType = 98\<rparr>
     else if codecName = ''H264'' then
       Some \<lparr>Capability = \<lparr>MimeType = ''video/H264'', ClockRate = 90000, Channels = 0,
               SDPFmtpLine =
                 ''level-asymmetry-allowed=1;packetization-mode=1;profile-level-id=42001f'',
               RTCPFeedback = fb\<rparr>, PayloadType = 102\<rparr>
     else if codecName = ''Opus'' then
       Some \<lparr>Capability = \<lparr>MimeType = ''audio/opus'', ClockRate = 48000, Channels = 2,
               SDPFmtpLine = [], RTCPFeedback = fb\<rparr>, PayloadType = 111\<rparr>
     else if codecName = ''G722'' then
       Some \<lparr>Capability = \<lparr>MimeType = ''audio/G722'', ClockRate = 8000, Channels = 0,
               SDPFmtpLine = [], RTCPFeedback = fb\<rparr>, PayloadType = 9\<rparr>
     else if codecName = ''PCMU'' then
       Some \<lparr>Capability = \<lparr>MimeType = ''audio/PCMU'', ClockRate = 8000, Channels = 0,
               SDPFmtpLine = [], RTCPFeedback = fb\<rparr>, PayloadType = 0\<rparr>
     else if codecName = ''PCMA'' then
       Some \<lparr>Capability = \<lparr>MimeType = ''audio/PCMA'', ClockRate = 8000, Channels = 0,
               SDPFmtpLine = [], RTCPFeedback = fb\<rparr>, PayloadType = 8\<rparr>
     else None)"

definition createTrack ::
  "pion \<Rightarrow> string \<Rightarrow> Track option \<times> RTPCodecParameters \<times> error option" where
  "createTrack lib codecName =
    (case codec_of codecName of
       None \<Rightarrow> (None, zero_codec, Some (Error (''unknown codec '' @ codecName)))
     | Some codec \<Rightarrow>
        (case NewTrackLocalStaticSample lib (Capability codec) ''stream'' ''stream'' of
           Inl err \<Rightarrow> (None, codec, Some err)
         | Inr track \<Rightarrow> (Some track, codec, None)))"

text \<open>
  The codec table of the specification (section 4.1), in its words: name, mime type,
  clock rate, channel count, fmtp line, payload type. A channel count or fmtp line
  the specification does not list is zero or empty.
\<close>

definition spec_codec_table :: "(string \<times> string \<times> nat \<times> nat \<times> string \<times> nat) list" where
  "spec_codec_table =
    [(''VP8'', ''video/VP8'', 90000, 0, [], 96),
     (''VP9'', ''video/VP9'', 90000, 0, [], 98),
     (''H264'', ''video/H264'', 90000, 0,
        ''level-asymmetry-allowed=1;packetization-mode=1;profile-level-id=42001f'', 102),
     (''Opus'', ''audio/opus'', 48000, 2, [], 111),
     (''G722'', ''audio/G722'', 8000, 0, [], 9),
     (''PCMU'', ''audio/PCMU'', 8000, 0, [], 0),
     (''PCMA'', ''audio/PCMA'', 8000, 0, [], 8)]"

definition codec_tuple :: "RTPCodecParameters \<Rightarrow> string \<times> nat \<times> nat \<times> string \<times> nat" where
  "codec_tuple c =
    (MimeType (Capability c), unat (ClockRate (Capability c)), unat (Channels (Capability c)),
     SDPFmtpLine (Capability c), unat (PayloadType c))"

text \<open>The text of an error, \<^verbatim>\<open>err.Error()\<close>.\<close>

fun message :: "error \<Rightarrow> string" where
  "message ErrClosedPipe = ''io: read/write on closed pipe''"
| "message (Error msg) = msg"

section \<open>Events\<close>

text \<open>
  A log entry has its level, its fields (\<^verbatim>\<open>Str(k, v)\<close> is \<open>(k, v)\<close>, \<^verbatim>\<open>Err(err)\<close> is
  \<open>(''error'', message err)\<close>) and its message. The other events are the calls made on
  the library, on the session and on the session registry, and the goroutines started.
  A session is named by its address.
\<close>

datatype event =
    Log level "(string \<times> string) list" string
  | Call_WriteSample "Track option" Sample
  | Call_RegisterDefaultInterceptors MediaEngine
  | Call_NewPeerConnection API Configuration
  | Call_CreateDataChannel PeerConnection string bool
  | Call_OnDataChannel PeerConnection
  | Call_OnICEConnectionStateChange PeerConnection
  | Call_AddTrack PeerConnection "Track option"
  | Call_CreateOffer PeerConnection
  | Call_SetLocalDescription PeerConnection SessionDescription
  | Call_OnConnectionStateChange PeerConnection
  | Call_OnICECandidate PeerConnection
  | Call_SetPeer nat Peer
  | Go_rtcp RTPSender
  | Call_Read RTPSender nat
  | Call_Destroy string
  | Call_SetConnected nat bool
  | Call_SignalCandidate nat string

text \<open>
  The \<^verbatim>\<open>types.Session\<close> handed to \<^verbatim>\<open>CreatePeer\<close>: its address and the results of
  the three methods the manager calls on it.
\<close>

record Session =
  ref :: nat
  SetPeer :: "Peer \<Rightarrow> error option"
  SetConnected :: "bool \<Rightarrow> error option"
  SignalCandidate :: "string \<Rightarrow> error option"

text \<open>The state: the manager, and the Peer attached to each session (by address).\<close>

record world =
  mgr :: WebRTCManager
  attached :: "nat \<Rightarrow> Peer option"

text \<open>
  Modelled from the spec: the method \<^verbatim>\<open>SetPeer\<close> of \<^verbatim>\<open>types.Session\<close>, which is
  declared and implemented outside this file. It registers the Peer on the Session
  and reports an error; a registration that fails leaves no Peer of the call attached.
\<close>

definition session_SetPeer ::
  "Session \<Rightarrow> Peer \<Rightarrow> (nat \<Rightarrow> Peer option) \<Rightarrow> error option \<times> (nat \<Rightarrow> Peer option)" where
  "session_SetPeer session peer att =
    (case SetPeer session peer of
       Some err \<Rightarrow> (Some err, att)
     | None \<Rightarrow> (None, att(ref session := Some peer)))"

section \<open>Start: the frame consumers\<close>

text \<open>
  The closures \<^verbatim>\<open>Start\<close> hands to \<^verbatim>\<open>OnAudioFrame\<close> and \<^verbatim>\<open>OnVideoFrame\<close>. They
  return nothing; what they do is the events.
\<close>

definition audio_consumer :: "pion \<Rightarrow> WebRTCManager \<Rightarrow> Sample \<Rightarrow> event list" where
  "audio_consumer lib manager sample =
    Call_WriteSample (audioTrack manager) sample #
    (case WriteSample lib (audioTrack manager) sample of
       None \<Rightarrow> []
     | Some err \<Rightarrow>
        (if err \<noteq> ErrClosedPipe
         then [Log Warn [(''error'', message err)] ''audio pipeline failed to write'']
         else []))"

definition video_consumer :: "pion \<Rightarrow> WebRTCManager \<Rightarrow> Sample \<Rightarrow> event list" where
  "video_consumer lib manager sample =
    Call_WriteSample (videoTrack manager) sample #
    (case WriteSample lib (videoTrack manager) sample of
       None \<Rightarrow> []
     | Some err \<Rightarrow>
        (if err \<noteq> ErrClosedPipe
         then [Log Warn [(''error'', message err)] ''video pipeline failed to write'']
         else []))"

text \<open>
  Modelled from the spec: the frame producer (\<^verbatim>\<open>types.RemoteManager\<close>, outside this
  file) calls the registered consumer once for each Sample, in order.
\<close>

fun deliver :: "(Sample \<Rightarrow> event list) \<Rightarrow> Sample list \<Rightarrow> event list" where
  "deliver consumer [] = []"
| "deliver consumer (sample # samples) = consumer sample @ deliver consumer samples"

section \<open>CreatePeer: the observers\<close>

text \<open>The closure given to \<^verbatim>\<open>OnConnectionStateChange\<close>; it captures \<open>id\<close> (here \<open>id'\<close>) and \<open>session\<close>.\<close>

definition onConnectionStateChange ::
  "Session \<Rightarrow> string \<Rightarrow> PeerConnectionState \<Rightarrow> event list" where
  "onConnectionStateChange session id' state =
    (case state of
       PeerConnectionStateDisconnected \<Rightarrow>
         [Log Info [(''id'', id')] ''peer disconnected'', Call_Destroy id']
     | PeerConnectionStateFailed \<Rightarrow>
         [Log Warn [(''id'', id')] ''peer failed'', Call_Destroy id']
     | PeerConnectionStateClosed \<Rightarrow>
         [Log Info [(''id'', id')] ''peer closed'', Call_Destroy id']
     | PeerConnectionStateConnected \<Rightarrow>
         [Log Info [(''id'', id')] ''peer connected'', Call_SetConnected (ref session) True] @
         (case SetConnected session True of
            Some err \<Rightarrow>
              [Log Warn [(''error'', message err)] ''unable to set connected on peer'',
               Call_Destroy id']
          | None \<Rightarrow> [])
     | _ \<Rightarrow> [])"



section \<open>CreatePeer: the RTCP drain loops\<close>

text \<open>
  The body of each \<^verbatim>\<open>go func()\<close>: the loop, from its \<open>k\<close>-th read on. The buffer is
  made once and never read by the code, so only its length reaches the library. A
  loop that never returns has the value \<open>None\<close>; one that returns gives its events.
\<close>

partial_function (option) rtcp_loop ::
  "pion \<Rightarrow> RTPSender \<Rightarrow> 8 word list \<Rightarrow> nat \<Rightarrow> event list \<Rightarrow> event list option" where
  "rtcp_loop lib sender rtcpBuf k t =
    (case snd (Read lib sender k (length rtcpBuf)) of
       Some rtcpErr \<Rightarrow> Some (t @ [Call_Read sender (length rtcpBuf)])
     | None \<Rightarrow> rtcp_loop lib sender rtcpBuf (Suc k) (t @ [Call_Read sender (length rtcpBuf)]))"

declare rtcp_loop.simps [code]

definition rtcp_drain :: "pion \<Rightarrow> RTPSender \<Rightarrow> event list option" where
  "rtcp_drain lib sender = (let rtcpBuf = replicate 1500 0 in rtcp_loop lib sender rtcpBuf 0 [])"

section \<open>CreatePeer\<close>

text \<open>
  The result is the Go tuple (offer, ICE-lite flag, ICE servers, error), the state
  after the call and the events of the call. The interceptor registry is filled by
  \<^verbatim>\<open>RegisterDefaultInterceptors\<close> alone and is left out of \<open>API\<close>.
\<close>

definition CreatePeer ::
  "pion \<Rightarrow> string \<Rightarrow> Session \<Rightarrow> world \<Rightarrow>
     (string \<times> bool \<times> ICEServer list \<times> error option) \<times> world \<times> event list" where
  "CreatePeer lib id' session w =
    (let configuration = \<lparr>cfg_ICEServers = ICEServers (config (mgr w)),
                          cfg_SDPSemantics = UnifiedPlanWithFallback\<rparr>;
         settings = [];
         (configuration, settings) =
           (if ICELite (config (mgr w))
            then (\<lparr>cfg_ICEServers = [], cfg_SDPSemantics = UnifiedPlanWithFallback\<rparr>,
                  settings @ [SetLite True])
            else (configuration, settings));
         settings = settings @ [SetEphemeralUDPPortRange (EphemeralMin (config (mgr w)))
                                  (EphemeralMax (config (mgr w)))];
         settings = settings @ [SetNAT1To1IPs (NAT1To1IPs (config (mgr w))) Host];
         settings = settings @ [SetICETimeouts (6 * Second) (6 * Second) (3 * Second)];
         settings = settings @ [SetSRTPReplayProtectionWindow 512];
         engine = [];
         engine = engine @ [(audioCodec (mgr w), RTPCodecTypeAudio)];
         engine = engine @ [(videoCodec (mgr w), RTPCodecTypeVideo)];
         t = [Call_RegisterDefaultInterceptors engine]
     in case RegisterDefaultInterceptors lib engine of
       Some err \<Rightarrow>
         (('''', ICELite (config (mgr w)), ICEServers (config (mgr w)), Some err), w, t)
     | None \<Rightarrow>
    (let api = \<lparr>api_engine = engine, api_settings = settings\<rparr>;
         t = t @ [Call_NewPeerConnection api configuration]
     in case NewPeerConnection lib api configuration of
       Inl err \<Rightarrow>
         (('''', ICELite (config (mgr w)), ICEServers (config (mgr w)), Some err), w, t)
     | Inr connection \<Rightarrow>
    (let negotiated = True;
         t = t @ [Call_CreateDataChannel connection ''data'' negotiated]
     in case CreateDataChannel lib connection ''data'' negotiated of
       Some err \<Rightarrow>
         (('''', ICELite (config (mgr w)), ICEServers (config (mgr w)), Some err), w, t)
     | None \<Rightarrow>
    (let t = t @ [Call_OnDataChannel connection, Call_OnICEConnectionStateChange connection,
                  Call_AddTrack connection (videoTrack (mgr w))]
     in case AddTrack lib connection (videoTrack (mgr w)) of
       Inl err \<Rightarrow>
         (('''', ICELite (config (mgr w)), ICEServers (config (mgr w)), Some err), w, t)
     | Inr rtpVideo \<Rightarrow>
    (let t = t @ [Call_AddTrack connection (audioTrack (mgr w))]
     in case AddTrack lib connection (audioTrack (mgr w)) of
       Inl err \<Rightarrow>
         (('''', ICELite (config (mgr w)), ICEServers (config (mgr w)), Some err), w, t)
     | Inr rtpAudio \<Rightarrow>
    (let t = t @ [Call_CreateOffer connection]
     in case CreateOffer lib connection of
       Inl err \<Rightarrow>
         (('''', ICELite (config (mgr w)), ICEServers (config (mgr w)), Some err), w, t)
     | Inr description \<Rightarrow>
    (let t = t @ [Call_SetLocalDescription connection description]
     in case SetLocalDescription lib connection description of
       Some err \<Rightarrow>
         (('''', ICELite (config (mgr w)), ICEServers (config (mgr w)), Some err), w, t)
     | None \<Rightarrow>
    (let t = t @ [Call_OnConnectionStateChange connection, Call_OnICECandidate connection];
         peer = \<lparr>peer_id = id', peer_api = api, peer_engine = engine,
                 peer_manager = mgr w, peer_settings = settings,
                 peer_connection = connection, peer_configuration = configuration\<rparr>;
         t = t @ [Call_SetPeer (ref session) peer]
     in case session_SetPeer session peer (attached w) of
       (Some err, att) \<Rightarrow>
         (('''', ICELite (config (mgr w)), ICEServers (config (mgr w)), Some err),
          w\<lparr>attached := att\<rparr>, t)
     | (None, att) \<Rightarrow>
         ((SDP description, ICELite (config (mgr w)), ICEServers (config (mgr w)), None),
          w\<lparr>attached := att\<rparr>, t @ [Go_rtcp rtpVideo, Go_rtcp rtpAudio])))))))))"

text \<open>The parts of what \<open>CreatePeer\<close> gives back.\<close>

definition ret_offer ::
  "(string \<times> bool \<times> ICEServer list \<times> error option) \<times> world \<times> event list \<Rightarrow> string" where
  "ret_offer r = fst (fst r)"

definition ret_lite ::
  "(string \<times> bool \<times> ICEServer list \<times> error option) \<times> world \<times> event list \<Rightarrow> bool" where
  "ret_lite r = fst (snd (fst r))"

definition ret_servers ::
  "(string \<times> bool \<times> ICEServer list \<times> error option) \<times> world \<times> event list \<Rightarrow> ICEServer list"
  where
  "ret_servers r = fst (snd (snd (fst r)))"

definition ret_err ::
  "(string \<times> bool \<times> ICEServer list \<times> error option) \<times> world \<times> event list \<Rightarrow> error option"
  where
  "ret_err r = snd (snd (snd (fst r)))"

definition ret_world ::
  "(string \<times> bool \<times> ICEServer list \<times> error option) \<times> world \<times> event list \<Rightarrow> world" where
  "ret_world r = fst (snd r)"

definition ret_events ::
  "(string \<times> bool \<times> ICEServer list \<times> error option) \<times> world \<times> event list \<Rightarrow> event list"
  where
  "ret_events r = snd (snd r)"

section \<open>Reading a trace\<close>

text \<open>The viewer ids handed to \<^verbatim>\<open>sessions.Destroy\<close>, in order.\<close>

fun destroyed :: "event \<Rightarrow> string list" where
  "destroyed (Call_Destroy v) = [v]"
| "destroyed _ = []"

definition destroys :: "event list \<Rightarrow> string list" where
  "destroys t = concat (map destroyed t)"

text \<open>The calls of \<^verbatim>\<open>SetConnected\<close>: session and argument.\<close>

fun set_connected :: "event \<Rightarrow> (nat \<times> bool) list" where
  "set_connected (Call_SetConnected s b) = [(s, b)]"
| "set_connected _ = []"

definition set_connecteds :: "event list \<Rightarrow> (nat \<times> bool) list" where
  "set_connecteds t = concat (map set_connected t)"

text \<open>The calls of \<^verbatim>\<open>SignalCandidate\<close>: session and string.\<close>

fun signalled :: "event \<Rightarrow> (nat \<times> string) list" where
  "signalled (Call_SignalCandidate s c) = [(s, c)]"
| "signalled _ = []"

definition signals :: "event list \<Rightarrow> (nat \<times> string) list" where
  "signals t = concat (map signalled t)"

text \<open>The calls of \<^verbatim>\<open>SetPeer\<close>: session and Peer.\<close>

fun set_peer :: "event \<Rightarrow> (nat \<times> Peer) list" where
  "set_peer (Call_SetPeer s p) = [(s, p)]"
| "set_peer _ = []"

definition set_peers :: "event list \<Rightarrow> (nat \<times> Peer) list" where
  "set_peers t = concat (map set_peer t)"

text \<open>The log entries: level and message.\<close>

fun logged :: "event \<Rightarrow> (level \<times> string) list" where
  "logged (Log l fs msg) = [(l, msg)]"
| "logged _ = []"

definition logs :: "event list \<Rightarrow> (level \<times> string) list" where
  "logs t = concat (map logged t)"

definition warnings :: "event list \<Rightarrow> string list" where
  "warnings t = map snd (filter (\<lambda>e. fst e = Warn) (logs t))"

text \<open>The samples handed to \<^verbatim>\<open>WriteSample\<close>.\<close>

fun written :: "event \<Rightarrow> Sample list" where
  "written (Call_WriteSample tr s) = [s]"
| "written _ = []"

definition writes :: "event list \<Rightarrow> Sample list" where
  "writes t = concat (map written t)"

text \<open>The ICE server lists of the configurations the connections were built with.\<close>

fun applied :: "event \<Rightarrow> ICEServer list list" where
  "applied (Call_NewPeerConnection api configuration) = [cfg_ICEServers configuration]"
| "applied _ = []"

definition applied_servers :: "event list \<Rightarrow> ICEServer list list" where
  "applied_servers t = concat (map applied t)"

text \<open>The descriptions handed to \<^verbatim>\<open>SetLocalDescription\<close>.\<close>

fun described :: "event \<Rightarrow> (PeerConnection \<times> SessionDescription) list" where
  "described (Call_SetLocalDescription c d) = [(c, d)]"
| "described _ = []"

definition local_descriptions :: "event list \<Rightarrow> (PeerConnection \<times> SessionDescription) list" where
  "local_descriptions t = concat (map described t)"

text \<open>The senders a drain loop was started on.\<close>

fun started :: "event \<Rightarrow> RTPSender list" where
  "started (Go_rtcp s) = [s]"
| "started _ = []"

definition drains :: "event list \<Rightarrow> RTPSender list" where
  "drains t = concat (map started t)"

text \<open>
  The error a call of the trace came back with: \<open>None\<close> when it succeeded, and for the
  events that cannot fail (registering an observer, starting a goroutine, logging).
\<close>

fun outcome :: "pion \<Rightarrow> Session \<Rightarrow> event \<Rightarrow> error option" where
  "outcome lib session (Call_RegisterDefaultInterceptors engine) =
     RegisterDefaultInterceptors lib engine"
| "outcome lib session (Call_NewPeerConnection api configuration) =
     (case NewPeerConnection lib api configuration of Inl err \<Rightarrow> Some err | Inr c \<Rightarrow> None)"
| "outcome lib session (Call_CreateDataChannel c label negotiated) =
     CreateDataChannel lib c label negotiated"
| "outcome lib session (Call_AddTrack c tr) =
     (case AddTrack lib c tr of Inl err \<Rightarrow> Some err | Inr s \<Rightarrow> None)"
| "outcome lib session (Call_CreateOffer c) =
     (case CreateOffer lib c of Inl err \<Rightarrow> Some err | Inr d \<Rightarrow> None)"
| "outcome lib session (Call_SetLocalDescription c d) = SetLocalDescription lib c d"
| "outcome lib session (Call_SetPeer s p) = SetPeer session p"
| "outcome lib session (Call_WriteSample tr s) = WriteSample lib tr s"
| "outcome lib session (Call_SetConnected s b) = SetConnected session b"
| "outcome lib session (Call_SignalCandidate s c) = SignalCandidate session c"
| "outcome lib session _ = None"


section \<open>What CreatePeer builds\<close>

text \<open>
  Names for the values \<open>CreatePeer\<close> builds before and between its calls, for the
  statements below: the configuration, the settings, the media engine, the API, the
  Peer, the tuple of a failed call and the calls of a complete run in order (those
  before there is a connection, those on the connection, those from the offer on). That
  \<open>CreatePeer\<close> computes these is lemma \<open>CreatePeer_cases\<close>.
\<close>

definition built_configuration :: "world \<Rightarrow> Configuration" where
  "built_configuration w =
    (if ICELite (config (mgr w))
     then \<lparr>cfg_ICEServers = [], cfg_SDPSemantics = UnifiedPlanWithFallback\<rparr>
     else \<lparr>cfg_ICEServers = ICEServers (config (mgr w)),
           cfg_SDPSemantics = UnifiedPlanWithFallback\<rparr>)"

definition built_settings :: "world \<Rightarrow> SettingEngine" where
  "built_settings w =
    (if ICELite (config (mgr w)) then [SetLite True] else []) @
    [SetEphemeralUDPPortRange (EphemeralMin (config (mgr w))) (EphemeralMax (config (mgr w))),
     SetNAT1To1IPs (NAT1To1IPs (config (mgr w))) Host,
     SetICETimeouts (6 * Second) (6 * Second) (3 * Second),
     SetSRTPReplayProtectionWindow 512]"

definition built_engine :: "world \<Rightarrow> MediaEngine" where
  "built_engine w =
    [(audioCodec (mgr w), RTPCodecTypeAudio), (videoCodec (mgr w), RTPCodecTypeVideo)]"

definition built_api :: "world \<Rightarrow> API" where
  "built_api w = \<lparr>api_engine = built_engine w, api_settings = built_settings w\<rparr>"

definition built_peer :: "string \<Rightarrow> world \<Rightarrow> PeerConnection \<Rightarrow> Peer" where
  "built_peer id' w connection =
    \<lparr>peer_id = id', peer_api = built_api w, peer_engine = built_engine w,
     peer_manager = mgr w, peer_settings = built_settings w,
     peer_connection = connection, peer_configuration = built_configuration w\<rparr>"

definition failed :: "world \<Rightarrow> error \<Rightarrow> string \<times> bool \<times> ICEServer list \<times> error option" where
  "failed w err = ('''', ICELite (config (mgr w)), ICEServers (config (mgr w)), Some err)"

definition calls_engine :: "world \<Rightarrow> event list" where
  "calls_engine w =
    [Call_RegisterDefaultInterceptors (built_engine w),
     Call_NewPeerConnection (built_api w) (built_configuration w)]"

definition calls_connection :: "world \<Rightarrow> PeerConnection \<Rightarrow> event list" where
  "calls_connection w c =
    [Call_CreateDataChannel c ''data'' True,
     Call_OnDataChannel c,
     Call_OnICEConnectionStateChange c,
     Call_AddTrack c (videoTrack (mgr w)),
     Call_AddTrack c (audioTrack (mgr w)),
     Call_CreateOffer c]"

definition calls_description ::
  "string \<Rightarrow> Session \<Rightarrow> world \<Rightarrow> PeerConnection \<Rightarrow> SessionDescription \<Rightarrow> event list" where
  "calls_description id' session w c d =
    [Call_SetLocalDescription c d,
     Call_OnConnectionStateChange c,
     Call_OnICECandidate c,
     Call_SetPeer (ref session) (built_peer id' w c)]"

section \<open>A concrete library, session and state\<close>

text \<open>
  A library in which every call succeeds and the third read of a sender fails, a
  session that accepts everything, and a manager as \<^verbatim>\<open>Start\<close> leaves it for the
  codecs VP8 and Opus, with ICE-lite on and one ICE server configured.
\<close>

definition lib_ok :: pion where
  "lib_ok =
    \<lparr>NewTrackLocalStaticSample =
       (\<lambda>c i s. Inr \<lparr>track_codec = c, track_id = i, track_stream = s\<rparr>),
     WriteSample = (\<lambda>tr s. None),
     RegisterDefaultInterceptors = (\<lambda>e. None),
     NewPeerConnection = (\<lambda>a c. Inr 1),
     CreateDataChannel = (\<lambda>c l n. None),
     AddTrack = (\<lambda>c tr. case tr of None \<Rightarrow> Inl (Error ''nil track'')
                  | Some x \<Rightarrow> Inr (if take 5 (MimeType (track_codec x)) = ''video'' then 1 else 2)),
     CreateOffer = (\<lambda>c. Inr \<lparr>sd_Type = SDPTypeOffer, SDP = ''v=0''\<rparr>),
     SetLocalDescription = (\<lambda>c d. None),
     Marshal_ToJSON = (\<lambda>c. Inr (''{candidate:'' @ Foundation c @ '' 1 udp 1 '' @ Address c
                                  @ '' 5000 typ host}'')),
     Read = (\<lambda>s k n. (0, if k < 2 then None else Some (Error ''EOF'')))\<rparr>"

definition session_ok :: Session where
  "session_ok =
    \<lparr>ref = 1, SetPeer = (\<lambda>p. None), SetConnected = (\<lambda>b. None),
     SignalCandidate = (\<lambda>c. None)\<rparr>"

definition stun :: ICEServer where
  "stun = \<lparr>URLs = [''stun:stun.l.google.com:19302''], Username = [], Credential = []\<rparr>"

definition manager_lite :: WebRTCManager where
  "manager_lite =
    \<lparr>videoTrack = fst (createTrack lib_ok ''VP8''),
     audioTrack = fst (createTrack lib_ok ''Opus''),
     videoCodec = fst (snd (createTrack lib_ok ''VP8'')),
     audioCodec = fst (snd (createTrack lib_ok ''Opus'')),
     config = \<lparr>ICELite = True, ICEServers = [stun], EphemeralMin = 59000,
                EphemeralMax = 59100, NAT1To1IPs = []\<rparr>\<rparr>"

definition world_lite :: world where
  "world_lite = \<lparr>mgr = manager_lite, attached = (\<lambda>s. None)\<rparr>"


definition sample0 :: Sample where
  "sample0 = \<lparr>Data = [], Duration = 0\<rparr>"



section \<open>Lemmas on CreatePeer\<close>

lemmas built_defs = built_configuration_def built_settings_def built_engine_def built_api_def
  built_peer_def failed_def calls_engine_def calls_connection_def calls_description_def

lemmas ret_defs = ret_offer_def ret_lite_def ret_servers_def ret_err_def ret_world_def
  ret_events_def

lemmas trace_defs = destroys_def set_connecteds_def signals_def set_peers_def logs_def
  warnings_def writes_def applied_servers_def local_descriptions_def drains_def

text \<open>
  The nine ways through \<open>CreatePeer\<close>: each of the eight fallible calls failing after
  the ones before it succeeded, and the run in which all succeed.
\<close>

lemma CreatePeer_cases
  [case_names interceptors connection channel video audio offer local peer success]:
  obtains
    err where "RegisterDefaultInterceptors lib (built_engine w) = Some err"
      "CreatePeer lib id' session w = (failed w err, w, take 1 (calls_engine w))"
  | err where "RegisterDefaultInterceptors lib (built_engine w) = None"
      "NewPeerConnection lib (built_api w) (built_configuration w) = Inl err"
      "CreatePeer lib id' session w = (failed w err, w, calls_engine w)"
  | err c where "RegisterDefaultInterceptors lib (built_engine w) = None"
      "NewPeerConnection lib (built_api w) (built_configuration w) = Inr c"
      "CreateDataChannel lib c ''data'' True = Some err"
      "CreatePeer lib id' session w =
         (failed w err, w, calls_engine w @ take 1 (calls_connection w c))"
  | err c where "RegisterDefaultInterceptors lib (built_engine w) = None"
      "NewPeerConnection lib (built_api w) (built_configuration w) = Inr c"
      "CreateDataChannel lib c ''data'' True = None"
      "AddTrack lib c (videoTrack (mgr w)) = Inl err"
      "CreatePeer lib id' session w =
         (failed w err, w, calls_engine w @ take 4 (calls_connection w c))"
  | err c v where "RegisterDefaultInterceptors lib (built_engine w) = None"
      "NewPeerConnection lib (built_api w) (built_configuration w) = Inr c"
      "CreateDataChannel lib c ''data'' True = None"
      "AddTrack lib c (videoTrack (mgr w)) = Inr v"
      "AddTrack lib c (audioTrack (mgr w)) = Inl err"
      "CreatePeer lib id' session w =
         (failed w err, w, calls_engine w @ take 5 (calls_connection w c))"
  | err c v a where "RegisterDefaultInterceptors lib (built_engine w) = None"
      "NewPeerConnection lib (built_api w) (built_configuration w) = Inr c"
      "CreateDataChannel lib c ''data'' True = None"
      "AddTrack lib c (videoTrack (mgr w)) = Inr v"
      "AddTrack lib c (audioTrack (mgr w)) = Inr a"
      "CreateOffer lib c = Inl err"
      "CreatePeer lib id' session w = (failed w err, w, calls_engine w @ calls_connection w c)"
  | err c v a d where "RegisterDefaultInterceptors lib (built_engine w) = None"
      "NewPeerConnection lib (built_api w) (built_configuration w) = Inr c"
      "CreateDataChannel lib c ''data'' True = None"
      "AddTrack lib c (videoTrack (mgr w)) = Inr v"
      "AddTrack lib c (audioTrack (mgr w)) = Inr a"
      "CreateOffer lib c = Inr d"
      "SetLocalDescription lib c d = Some err"
      "CreatePeer lib id' session w =
         (failed w err, w,
          calls_engine w @ calls_connection w c @ take 1 (calls_description id' session w c d))"
  | err c v a d where "RegisterDefaultInterceptors lib (built_engine w) = None"
      "NewPeerConnection lib (built_api w) (built_configuration w) = Inr c"
      "CreateDataChannel lib c ''data'' True = None"
      "AddTrack lib c (videoTrack (mgr w)) = Inr v"
      "AddTrack lib c (audioTrack (mgr w)) = Inr a"
      "CreateOffer lib c = Inr d"
      "SetLocalDescription lib c d = None"
      "SetPeer session (built_peer id' w c) = Some err"
      "CreatePeer lib id' session w =
         (failed w err, w,
          calls_engine w @ calls_connection w c @ calls_description id' session w c d)"
  | c v a d where "RegisterDefaultInterceptors lib (built_engine w) = None"
      "NewPeerConnection lib (built_api w) (built_configuration w) = Inr c"
      "CreateDataChannel lib c ''data'' True = None"
      "AddTrack lib c (videoTrack (mgr w)) = Inr v"
      "AddTrack lib c (audioTrack (mgr w)) = Inr a"
      "CreateOffer lib c = Inr d"
      "SetLocalDescription lib c d = None"
      "SetPeer session (built_peer id' w c) = None"
      "CreatePeer lib id' session w =
         ((SDP d, ICELite (config (mgr w)), ICEServers (config (mgr w)), None),
          w\<lparr>attached := (attached w)(ref session := Some (built_peer id' w c))\<rparr>,
          calls_engine w @ calls_connection w c @ calls_description id' session w c d @
          [Go_rtcp v, Go_rtcp a])"
proof (cases "RegisterDefaultInterceptors lib (built_engine w)")
  case (Some err)
  then show ?thesis
    using that(1) [of err]
    by (cases "ICELite (config (mgr w))"; simp add: CreatePeer_def Let_def built_defs)
next
  case i: None
  show ?thesis
  proof (cases "NewPeerConnection lib (built_api w) (built_configuration w)")
    case (Inl err)
    with i show ?thesis
      using that(2) [of err]
      by (cases "ICELite (config (mgr w))"; simp add: CreatePeer_def Let_def built_defs)
  next
    case n: (Inr c)
    show ?thesis
    proof (cases "CreateDataChannel lib c ''data'' True")
      case (Some err)
      with i n show ?thesis
        using that(3) [of c err]
        by (cases "ICELite (config (mgr w))"; simp add: CreatePeer_def Let_def built_defs)
    next
      case ch: None
      show ?thesis
      proof (cases "AddTrack lib c (videoTrack (mgr w))")
        case (Inl err)
        with i n ch show ?thesis
          using that(4) [of c err]
          by (cases "ICELite (config (mgr w))"; simp add: CreatePeer_def Let_def built_defs)
      next
        case v: (Inr v)
        show ?thesis
        proof (cases "AddTrack lib c (audioTrack (mgr w))")
          case (Inl err)
          with i n ch v show ?thesis
            using that(5) [of c v err]
            by (cases "ICELite (config (mgr w))"; simp add: CreatePeer_def Let_def built_defs)
        next
          case a: (Inr a)
          show ?thesis
          proof (cases "CreateOffer lib c")
            case (Inl err)
            with i n ch v a show ?thesis
              using that(6) [of c v a err]
              by (cases "ICELite (config (mgr w))"; simp add: CreatePeer_def Let_def built_defs)
          next
            case d: (Inr d)
            show ?thesis
            proof (cases "SetLocalDescription lib c d")
              case (Some err)
              with i n ch v a d show ?thesis
                using that(7) [of c v a d err]
                by (cases "ICELite (config (mgr w))";
                    simp add: CreatePeer_def Let_def built_defs)
            next
              case l: None
              show ?thesis
              proof (cases "SetPeer session (built_peer id' w c)")
                case (Some err)
                with i n ch v a d l show ?thesis
                  using that(8) [of c v a d err]
                  by (cases "ICELite (config (mgr w))";
                      simp add: CreatePeer_def Let_def built_defs session_SetPeer_def)
              next
                case None
                with i n ch v a d l show ?thesis
                  using that(9) [of c v a d]
                  by (cases "ICELite (config (mgr w))";
                      simp add: CreatePeer_def Let_def built_defs session_SetPeer_def)
              qed
            qed
          qed
        qed
      qed
    qed
  qed
qed

section \<open>CreatePeer: the configuration and what is returned\<close>

text \<open>
  C1, as the code has it. With ICE-lite enabled the configured ICE server list is
  ignored when the connection is built: the one connection \<open>CreatePeer\<close> constructs
  (none when registering the interceptors fails) gets the empty list. The list
  \<open>CreatePeer\<close> returns is the configured one, with the ICE-lite flag beside it, not
  the list applied to the connection.
\<close>

theorem CreatePeer_ICELite_servers:
  assumes "ICELite (config (mgr w))"
  shows "applied_servers (ret_events (CreatePeer lib id' session w)) =
           (if RegisterDefaultInterceptors lib (built_engine w) = None then [Nil] else []) \<and>
         ret_servers (CreatePeer lib id' session w) = ICEServers (config (mgr w)) \<and>
         ret_lite (CreatePeer lib id' session w)"
  using assms
  by (cases rule: CreatePeer_cases [where lib = lib and w = w and id' = id' and session = session])
     (simp_all add: built_defs ret_defs applied_servers_def)


theorem CreatePeer_ICELite_servers_witness:
  "ICELite (config (mgr world_lite)) \<and>
   applied_servers (ret_events (CreatePeer lib_ok ''viewer-1'' session_ok world_lite)) = [Nil] \<and>
   ret_servers (CreatePeer lib_ok ''viewer-1'' session_ok world_lite) = [stun] \<and>
   ret_lite (CreatePeer lib_ok ''viewer-1'' session_ok world_lite)"
proof -
  have h: "ICELite (config (mgr world_lite))"
    by (simp add: world_lite_def manager_lite_def)
  have i: "RegisterDefaultInterceptors lib_ok (built_engine world_lite) = None"
    by (simp add: lib_ok_def)
  have s: "ICEServers (config (mgr world_lite)) = [stun]"
    by (simp add: world_lite_def manager_lite_def)
  show ?thesis
    using h i s CreatePeer_ICELite_servers [OF h, of lib_ok "''viewer-1''" session_ok]
    by simp
qed

text \<open>
  C1 as it is written fails: with ICE-lite on and one ICE server configured, the
  connection is built with no server, and the list returned holds the server.
\<close>

theorem CreatePeer_returned_servers_counterexample:
  "ICELite (config (mgr world_lite)) \<and>
   ret_err (CreatePeer lib_ok ''viewer-1'' session_ok world_lite) = None \<and>
   applied_servers (ret_events (CreatePeer lib_ok ''viewer-1'' session_ok world_lite)) = [Nil] \<and>
   ret_servers (CreatePeer lib_ok ''viewer-1'' session_ok world_lite) = [stun] \<and>
   [stun] \<noteq> []"
  by code_simp

text \<open>
  C10. A call that returns an error returns the empty offer; the ICE-lite flag and the
  ICE server list returned are the configured ones on every return, with an error or
  without.
\<close>

theorem CreatePeer_error_tuple:
  "(ret_err (CreatePeer lib id' session w) \<noteq> None \<longrightarrow>
      ret_offer (CreatePeer lib id' session w) = []) \<and>
   ret_lite (CreatePeer lib id' session w) = ICELite (config (mgr w)) \<and>
   ret_servers (CreatePeer lib id' session w) = ICEServers (config (mgr w))"
  by (cases rule: CreatePeer_cases [where lib = lib and w = w and id' = id' and session = session])
     (simp_all add: failed_def ret_defs)

theorem CreatePeer_error_tuple_witness:
  "ret_err (CreatePeer (lib_ok\<lparr>CreateOffer := (\<lambda>c. Inl (Error ''no offer''))\<rparr>)
      ''viewer-1'' session_ok world_lite) = Some (Error ''no offer'') \<and>
   ret_offer (CreatePeer (lib_ok\<lparr>CreateOffer := (\<lambda>c. Inl (Error ''no offer''))\<rparr>)
      ''viewer-1'' session_ok world_lite) = [] \<and>
   ret_lite (CreatePeer (lib_ok\<lparr>CreateOffer := (\<lambda>c. Inl (Error ''no offer''))\<rparr>)
      ''viewer-1'' session_ok world_lite) = True \<and>
   ret_servers (CreatePeer (lib_ok\<lparr>CreateOffer := (\<lambda>c. Inl (Error ''no offer''))\<rparr>)
      ''viewer-1'' session_ok world_lite) = [stun]"
proof -
  have e: "ret_err (CreatePeer (lib_ok\<lparr>CreateOffer := (\<lambda>c. Inl (Error ''no offer''))\<rparr>)
      ''viewer-1'' session_ok world_lite) = Some (Error ''no offer'')"
    by code_simp
  have c: "ICELite (config (mgr world_lite)) = True \<and> ICEServers (config (mgr world_lite)) = [stun]"
    by (simp add: world_lite_def manager_lite_def)
  show ?thesis
    using e c
      CreatePeer_error_tuple [of "lib_ok\<lparr>CreateOffer := (\<lambda>c. Inl (Error ''no offer''))\<rparr>"
        "''viewer-1''" session_ok world_lite]
    by simp
qed

section \<open>CreatePeer: success\<close>




section \<open>CreatePeer: failure\<close>

text \<open>
  C6. \<open>CreatePeer\<close> returns an error exactly when one of its calls fails. The call
  that failed is then the last one it made, every call before it succeeded, and the
  error returned is the error of that call. The state after the call is the state
  before it: no Peer was attached to the session by the call (a session with no Peer
  has none afterwards), the Peer of every other session is as it was, and so are the
  manager and its two tracks. The session's \<^verbatim>\<open>SetPeer\<close> is taken from the
  specification: when it fails it attaches nothing.
\<close>

theorem CreatePeer_failure:
  "(ret_err (CreatePeer lib id' session w) = None \<longrightarrow>
      (\<forall>ev \<in> set (ret_events (CreatePeer lib id' session w)). outcome lib session ev = None)) \<and>
   (\<forall>err. ret_err (CreatePeer lib id' session w) = Some err \<longrightarrow>
      outcome lib session (last (ret_events (CreatePeer lib id' session w))) = Some err \<and>
      (\<forall>ev \<in> set (butlast (ret_events (CreatePeer lib id' session w))).
         outcome lib session ev = None) \<and>
      set_peers (butlast (ret_events (CreatePeer lib id' session w))) = [] \<and>
      ret_world (CreatePeer lib id' session w) = w)"
  by (cases rule: CreatePeer_cases [where lib = lib and w = w and id' = id' and session = session])
     (simp_all add: failed_def ret_defs calls_engine_def calls_connection_def
        calls_description_def set_peers_def)

theorem CreatePeer_failure_witness:
  "ret_err (CreatePeer lib_ok ''viewer-1'' session_ok world_lite) = None \<and>
   Call_CreateOffer 1 \<in> set (ret_events (CreatePeer lib_ok ''viewer-1'' session_ok world_lite)) \<and>
   outcome lib_ok session_ok (Call_CreateOffer 1) = None \<and>
   Call_CreateOffer 1 \<in> set (butlast (ret_events (CreatePeer
      (lib_ok\<lparr>SetLocalDescription := (\<lambda>c d. Some (Error ''bad sdp''))\<rparr>)
      ''viewer-1'' session_ok world_lite))) \<and>
   outcome (lib_ok\<lparr>SetLocalDescription := (\<lambda>c d. Some (Error ''bad sdp''))\<rparr>) session_ok
     (Call_CreateOffer 1) = None \<and>
   ret_err (CreatePeer (lib_ok\<lparr>SetLocalDescription := (\<lambda>c d. Some (Error ''bad sdp''))\<rparr>)
      ''viewer-1'' session_ok world_lite) = Some (Error ''bad sdp'') \<and>
   last (ret_events (CreatePeer (lib_ok\<lparr>SetLocalDescription := (\<lambda>c d. Some (Error ''bad sdp''))\<rparr>)
      ''viewer-1'' session_ok world_lite)) =
     Call_SetLocalDescription 1 \<lparr>sd_Type = SDPTypeOffer, SDP = ''v=0''\<rparr> \<and>
   ret_world (CreatePeer (lib_ok\<lparr>SetLocalDescription := (\<lambda>c d. Some (Error ''bad sdp''))\<rparr>)
      ''viewer-1'' session_ok world_lite) = world_lite \<and>
   attached (ret_world (CreatePeer
      (lib_ok\<lparr>SetLocalDescription := (\<lambda>c d. Some (Error ''bad sdp''))\<rparr>)
      ''viewer-1'' session_ok world_lite)) (ref session_ok) = None"
proof -
  have e: "ret_err (CreatePeer (lib_ok\<lparr>SetLocalDescription := (\<lambda>c d. Some (Error ''bad sdp''))\<rparr>)
      ''viewer-1'' session_ok world_lite) = Some (Error ''bad sdp'')"
    by code_simp
  have l: "last (ret_events (CreatePeer
      (lib_ok\<lparr>SetLocalDescription := (\<lambda>c d. Some (Error ''bad sdp''))\<rparr>)
      ''viewer-1'' session_ok world_lite)) =
     Call_SetLocalDescription 1 \<lparr>sd_Type = SDPTypeOffer, SDP = ''v=0''\<rparr>"
    by code_simp
  have a: "attached world_lite (ref session_ok) = None"
    by (simp add: world_lite_def)
  have s: "ret_err (CreatePeer lib_ok ''viewer-1'' session_ok world_lite) = None"
    by code_simp
  have m: "Call_CreateOffer 1 \<in>
      set (ret_events (CreatePeer lib_ok ''viewer-1'' session_ok world_lite))"
    by code_simp
  have b: "Call_CreateOffer 1 \<in> set (butlast (ret_events (CreatePeer
      (lib_ok\<lparr>SetLocalDescription := (\<lambda>c d. Some (Error ''bad sdp''))\<rparr>)
      ''viewer-1'' session_ok world_lite)))"
    by code_simp
  show ?thesis
    using e l a s m b
      CreatePeer_failure [of lib_ok "''viewer-1''" session_ok world_lite]
      CreatePeer_failure [of "lib_ok\<lparr>SetLocalDescription := (\<lambda>c d. Some (Error ''bad sdp''))\<rparr>"
        "''viewer-1''" session_ok world_lite]
    by auto
qed

section \<open>createTrack: the codec table\<close>

lemma codec_of_table:
  "map_option codec_tuple (codec_of codecName) = map_of spec_codec_table codecName"
  by (simp add: spec_codec_table_def codec_of_def codec_tuple_def fb_def)

text \<open>
  C2, as the code has it. For each of the seven names of the specification's table,
  \<open>createTrack\<close> returns the codec with exactly the listed mime type, clock rate,
  channel count, fmtp line and payload type, and the track the library makes for that
  codec (or the library's error and no track). For every other name it returns no
  track, the zero codec and an error whose text is \<^verbatim>\<open>unknown codec\<close> followed by
  the name.
\<close>

theorem createTrack_codec_table:
  "(\<forall>tup. map_of spec_codec_table codecName = Some tup \<longrightarrow>
      codec_tuple (fst (snd (createTrack lib codecName))) = tup \<and>
      createTrack lib codecName =
        (case NewTrackLocalStaticSample lib
                (Capability (fst (snd (createTrack lib codecName)))) ''stream'' ''stream'' of
           Inl err \<Rightarrow> (None, fst (snd (createTrack lib codecName)), Some err)
         | Inr track \<Rightarrow> (Some track, fst (snd (createTrack lib codecName)), None))) \<and>
   (map_of spec_codec_table codecName = None \<longrightarrow>
      createTrack lib codecName =
        (None, zero_codec, Some (Error (''unknown codec '' @ codecName))))"
proof (cases "codec_of codecName")
  case None
  with codec_of_table [of codecName] show ?thesis
    by (simp add: createTrack_def)
next
  case (Some c)
  with codec_of_table [of codecName]
  have "map_of spec_codec_table codecName = Some (codec_tuple c)"
    by simp
  with Some show ?thesis
    by (simp add: createTrack_def split: sum.split)
qed

theorem createTrack_codec_table_witness:
  "map_of spec_codec_table ''VP8'' = Some (''video/VP8'', 90000, 0, [], 96) \<and>
   codec_tuple (fst (snd (createTrack lib_ok ''VP8''))) = (''video/VP8'', 90000, 0, [], 96) \<and>
   map_of spec_codec_table ''Opus'' = Some (''audio/opus'', 48000, 2, [], 111) \<and>
   codec_tuple (fst (snd (createTrack lib_ok ''Opus''))) = (''audio/opus'', 48000, 2, [], 111) \<and>
   map_of spec_codec_table ''XYZ'' = None \<and>
   createTrack lib_ok ''XYZ'' = (None, zero_codec, Some (Error ''unknown codec XYZ''))"
proof -
  have v: "map_of spec_codec_table ''VP8'' = Some (''video/VP8'', 90000, 0, [], 96)"
    by (simp add: spec_codec_table_def)
  have p: "map_of spec_codec_table ''Opus'' = Some (''audio/opus'', 48000, 2, [], 111)"
    by (simp add: spec_codec_table_def)
  have x: "map_of spec_codec_table ''XYZ'' = None"
    by (simp add: spec_codec_table_def)
  show ?thesis
    using v p x createTrack_codec_table [of "''VP8''" lib_ok]
      createTrack_codec_table [of "''Opus''" lib_ok]
      createTrack_codec_table [of "''XYZ''" lib_ok]
    by simp
qed

text \<open>
  C2 as it is written fails on the error: for the name \<^verbatim>\<open>XYZ\<close> the error of
  \<open>createTrack\<close> reads \<^verbatim>\<open>unknown codec XYZ\<close>, which does not contain
  \<^verbatim>\<open>unsupported codec\<close>.
\<close>

theorem createTrack_unsupported_counterexample:
  "snd (snd (createTrack lib_ok ''XYZ'')) = Some (Error ''unknown codec XYZ'') \<and>
   \<not> sublist ''unsupported codec'' (message (Error ''unknown codec XYZ''))"
  by code_simp

section \<open>The connection state observer\<close>

text \<open>
  C4. For every viewer id, when the observer sees the state \<^verbatim>\<open>disconnected\<close>,
  \<^verbatim>\<open>failed\<close> or \<^verbatim>\<open>closed\<close>, it calls \<^verbatim>\<open>Destroy\<close> exactly once, with that
  viewer id, whichever of the three states it is.
\<close>

theorem onConnectionStateChange_destroys:
  assumes "state \<in> {PeerConnectionStateDisconnected, PeerConnectionStateFailed,
                    PeerConnectionStateClosed}"
  shows "destroys (onConnectionStateChange session id' state) = [id']"
  using assms by (auto simp add: onConnectionStateChange_def destroys_def)

theorem onConnectionStateChange_destroys_witness:
  "PeerConnectionStateClosed \<in> {PeerConnectionStateDisconnected, PeerConnectionStateFailed,
                                PeerConnectionStateClosed} \<and>
   destroys (onConnectionStateChange session_ok ''viewer-1'' PeerConnectionStateClosed) =
     [''viewer-1'']"
proof -
  have h: "PeerConnectionStateClosed \<in> {PeerConnectionStateDisconnected,
             PeerConnectionStateFailed, PeerConnectionStateClosed}"
    by simp
  show ?thesis
    using h onConnectionStateChange_destroys [OF h, of session_ok "''viewer-1''"] by simp
qed

text \<open>
  C5. For every viewer id, when the observer sees the state \<^verbatim>\<open>connected\<close> it calls
  \<^verbatim>\<open>SetConnected(true)\<close> on the session, once. When that call succeeds there is no
  \<^verbatim>\<open>Destroy\<close> call; when it fails there is exactly one, with the viewer id.
\<close>

theorem onConnectionStateChange_connected:
  "set_connecteds (onConnectionStateChange session id' PeerConnectionStateConnected) =
     [(ref session, True)] \<and>
   (SetConnected session True = None \<longrightarrow>
      destroys (onConnectionStateChange session id' PeerConnectionStateConnected) = []) \<and>
   (SetConnected session True \<noteq> None \<longrightarrow>
      destroys (onConnectionStateChange session id' PeerConnectionStateConnected) = [id'])"
  by (auto simp add: onConnectionStateChange_def destroys_def set_connecteds_def
      split: option.split)

theorem onConnectionStateChange_connected_witness:
  "SetConnected session_ok True = None \<and>
   destroys (onConnectionStateChange session_ok ''viewer-1'' PeerConnectionStateConnected) = [] \<and>
   SetConnected (session_ok\<lparr>SetConnected := (\<lambda>b. Some (Error ''gone''))\<rparr>) True \<noteq> None \<and>
   destroys (onConnectionStateChange (session_ok\<lparr>SetConnected := (\<lambda>b. Some (Error ''gone''))\<rparr>)
     ''viewer-1'' PeerConnectionStateConnected) = [''viewer-1'']"
proof -
  have a: "SetConnected session_ok True = None"
    by (simp add: session_ok_def)
  have b: "SetConnected (session_ok\<lparr>SetConnected := (\<lambda>b. Some (Error ''gone''))\<rparr>) True \<noteq> None"
    by simp
  show ?thesis
    using a b onConnectionStateChange_connected [of session_ok "''viewer-1''"]
      onConnectionStateChange_connected
        [of "session_ok\<lparr>SetConnected := (\<lambda>b. Some (Error ''gone''))\<rparr>" "''viewer-1''"]
    by simp
qed

section \<open>The frame consumers\<close>

lemma writes_append: "writes (xs @ ys) = writes xs @ writes ys"
  by (simp add: writes_def)

lemma writes_audio_consumer: "writes (audio_consumer lib m s) = [s]"
  by (cases "WriteSample lib (audioTrack m) s") (simp_all add: writes_def audio_consumer_def)

lemma writes_video_consumer: "writes (video_consumer lib m s) = [s]"
  by (cases "WriteSample lib (videoTrack m) s") (simp_all add: writes_def video_consumer_def)

lemma writes_deliver_audio: "writes (deliver (audio_consumer lib m) samples) = samples"
  by (induction samples) (simp_all add: writes_append writes_audio_consumer, simp add: writes_def)

lemma writes_deliver_video: "writes (deliver (video_consumer lib m) samples) = samples"
  by (induction samples) (simp_all add: writes_append writes_video_consumer, simp add: writes_def)

text \<open>
  C7. For every Sample a frame consumer gets: when \<^verbatim>\<open>WriteSample\<close> fails with the
  closed-pipe error, nothing is logged; when it fails with any other error, exactly
  one entry is logged, a warning. The consumer returns nothing, so no failure goes
  further, and every Sample of a run is written whatever the earlier writes gave.
\<close>

theorem frame_consumer_warnings:
  "(WriteSample lib (audioTrack m) s = Some ErrClosedPipe \<longrightarrow>
      logs (audio_consumer lib m s) = []) \<and>
   (\<forall>err. WriteSample lib (audioTrack m) s = Some err \<and> err \<noteq> ErrClosedPipe \<longrightarrow>
      logs (audio_consumer lib m s) = [(Warn, ''audio pipeline failed to write'')]) \<and>
   (WriteSample lib (videoTrack m) s = Some ErrClosedPipe \<longrightarrow>
      logs (video_consumer lib m s) = []) \<and>
   (\<forall>err. WriteSample lib (videoTrack m) s = Some err \<and> err \<noteq> ErrClosedPipe \<longrightarrow>
      logs (video_consumer lib m s) = [(Warn, ''video pipeline failed to write'')]) \<and>
   writes (deliver (audio_consumer lib m) samples) = samples \<and>
   writes (deliver (video_consumer lib m) samples) = samples"
  by (simp add: writes_deliver_audio writes_deliver_video logs_def audio_consumer_def
      video_consumer_def)

theorem frame_consumer_warnings_witness:
  "WriteSample (lib_ok\<lparr>WriteSample := (\<lambda>tr s. Some ErrClosedPipe)\<rparr>) (audioTrack manager_lite)
     sample0 = Some ErrClosedPipe \<and>
   logs (audio_consumer (lib_ok\<lparr>WriteSample := (\<lambda>tr s. Some ErrClosedPipe)\<rparr>) manager_lite
     sample0) = [] \<and>
   logs (video_consumer (lib_ok\<lparr>WriteSample := (\<lambda>tr s. Some ErrClosedPipe)\<rparr>) manager_lite
     sample0) = [] \<and>
   WriteSample (lib_ok\<lparr>WriteSample := (\<lambda>tr s. Some (Error ''short write''))\<rparr>)
     (videoTrack manager_lite) sample0 = Some (Error ''short write'') \<and>
   Error ''short write'' \<noteq> ErrClosedPipe \<and>
   logs (audio_consumer (lib_ok\<lparr>WriteSample := (\<lambda>tr s. Some (Error ''short write''))\<rparr>)
     manager_lite sample0) = [(Warn, ''audio pipeline failed to write'')] \<and>
   logs (video_consumer (lib_ok\<lparr>WriteSample := (\<lambda>tr s. Some (Error ''short write''))\<rparr>)
     manager_lite sample0) = [(Warn, ''video pipeline failed to write'')] \<and>
   writes (deliver (video_consumer (lib_ok\<lparr>WriteSample := (\<lambda>tr s. Some (Error ''short write''))\<rparr>)
     manager_lite) [sample0, sample0]) = [sample0, sample0]"
proof -
  have a: "WriteSample (lib_ok\<lparr>WriteSample := (\<lambda>tr s. Some ErrClosedPipe)\<rparr>) tr sample0 =
      Some ErrClosedPipe" for tr
    by simp
  have b: "WriteSample (lib_ok\<lparr>WriteSample := (\<lambda>tr s. Some (Error ''short write''))\<rparr>)
      tr sample0 = Some (Error ''short write'') \<and> Error ''short write'' \<noteq> ErrClosedPipe" for tr
    by simp
  show ?thesis
    using a b
      frame_consumer_warnings [of "lib_ok\<lparr>WriteSample := (\<lambda>tr s. Some ErrClosedPipe)\<rparr>"
        manager_lite sample0 "[]"]
      frame_consumer_warnings [of "lib_ok\<lparr>WriteSample := (\<lambda>tr s. Some (Error ''short write''))\<rparr>"
        manager_lite sample0 "[sample0, sample0]"]
    by simp
qed

section \<open>The ICE candidate observer\<close>








section \<open>The RTCP drain loops\<close>

lemma rtcp_loop_returns:
  assumes "snd (Read lib sender (k + n) (length buf)) \<noteq> None"
    and "\<forall>j<n. snd (Read lib sender (k + j) (length buf)) = None"
  shows "rtcp_loop lib sender buf k t =
    Some (t @ replicate (Suc n) (Call_Read sender (length buf)))"
  using assms
proof (induction n arbitrary: k t)
  case 0
  then show ?case
    by (subst rtcp_loop.simps) (auto split: option.split)
next
  case (Suc n)
  from Suc.prems(2) have here: "snd (Read lib sender k (length buf)) = None"
    by (metis add.right_neutral zero_less_Suc)
  have fails: "snd (Read lib sender (Suc k + n) (length buf)) \<noteq> None"
    using Suc.prems(1) by simp
  have before: "\<forall>j<n. snd (Read lib sender (Suc k + j) (length buf)) = None"
  proof (intro allI impI)
    fix j assume "j < n"
    then have "Suc j < Suc n" by simp
    with Suc.prems(2) have "snd (Read lib sender (k + Suc j) (length buf)) = None"
      by blast
    then show "snd (Read lib sender (Suc k + j) (length buf)) = None"
      by simp
  qed
  have "rtcp_loop lib sender buf k t =
      rtcp_loop lib sender buf (Suc k) (t @ [Call_Read sender (length buf)])"
    using here by (subst rtcp_loop.simps) simp
  also have "\<dots> = Some ((t @ [Call_Read sender (length buf)]) @
      replicate (Suc n) (Call_Read sender (length buf)))"
    by (rule Suc.IH [OF fails before])
  finally show ?case
    by (simp add: replicate_app_Cons_same)
qed

text \<open>A loop whose reads never fail does not return.\<close>

lemma rtcp_loop_Some_fails:
  assumes "rtcp_loop lib sender buf k t = Some y"
  shows "\<exists>j\<ge>k. snd (Read lib sender j (length buf)) \<noteq> None"
proof (rule rtcp_loop.raw_induct
    [where P = "\<lambda>lib sender buf k t y. \<exists>j\<ge>k. snd (Read lib sender j (length buf)) \<noteq> None",
     OF _ assms])
  fix f lib sender buf k t y
  assume IH: "\<And>lib sender buf k t y. f lib sender buf k t = Some y \<Longrightarrow>
      \<exists>j\<ge>k. snd (Read lib sender j (length buf)) \<noteq> None"
    and step: "(case snd (Read lib sender k (length buf)) of
        None \<Rightarrow> f lib sender buf (Suc k) (t @ [Call_Read sender (length buf)])
      | Some rtcpErr \<Rightarrow> Some (t @ [Call_Read sender (length buf)])) = Some y"
  show "\<exists>j\<ge>k. snd (Read lib sender j (length buf)) \<noteq> None"
  proof (cases "snd (Read lib sender k (length buf))")
    case None
    with step have "f lib sender buf (Suc k) (t @ [Call_Read sender (length buf)]) = Some y"
      by simp
    from IH [OF this] obtain j where "Suc k \<le> j" "snd (Read lib sender j (length buf)) \<noteq> None"
      by blast
    then show ?thesis
      by (metis Suc_leD)
  next
    case (Some e)
    then show ?thesis by auto
  qed
qed

text \<open>
  C9. A call of \<open>CreatePeer\<close> that succeeds starts two drain loops, on the sender of
  the video track and on the sender of the audio track. If some read of a sender
  fails, its drain loop returns: it has read into a buffer of 1500 bytes each time,
  the read that failed is its last, every read before it succeeded, and its events
  are those reads alone, with no log entry. If no read ever fails it does not return.
\<close>

theorem rtcp_drain_returns:
  "(ret_err (CreatePeer lib id' session w) = None \<longrightarrow>
      (\<exists>c v a. AddTrack lib c (videoTrack (mgr w)) = Inr v \<and>
         AddTrack lib c (audioTrack (mgr w)) = Inr a \<and>
         drains (ret_events (CreatePeer lib id' session w)) = [v, a])) \<and>
   ((\<exists>k. snd (Read lib sender k 1500) \<noteq> None) \<longrightarrow>
      (\<exists>n. rtcp_drain lib sender = Some (replicate (Suc n) (Call_Read sender 1500)) \<and>
         snd (Read lib sender n 1500) \<noteq> None \<and>
         (\<forall>j<n. snd (Read lib sender j 1500) = None) \<and>
         logs (replicate (Suc n) (Call_Read sender 1500)) = [])) \<and>
   ((\<forall>k. snd (Read lib sender k 1500) = None) \<longrightarrow> rtcp_drain lib sender = None)"
proof (intro conjI impI)
  assume "ret_err (CreatePeer lib id' session w) = None"
  then show "\<exists>c v a. AddTrack lib c (videoTrack (mgr w)) = Inr v \<and>
      AddTrack lib c (audioTrack (mgr w)) = Inr a \<and>
      drains (ret_events (CreatePeer lib id' session w)) = [v, a]"
    by (cases rule: CreatePeer_cases
          [where lib = lib and w = w and id' = id' and session = session])
       (auto simp add: failed_def ret_defs calls_engine_def calls_connection_def
          calls_description_def drains_def)
next
  assume "\<exists>k. snd (Read lib sender k 1500) \<noteq> None"
  then obtain k where k: "snd (Read lib sender k 1500) \<noteq> None" ..
  define n where "n = (LEAST k. snd (Read lib sender k 1500) \<noteq> None)"
  have fails: "snd (Read lib sender n 1500) \<noteq> None"
    unfolding n_def using k by (rule LeastI)
  have before: "\<forall>j<n. snd (Read lib sender j 1500) = None"
    unfolding n_def using not_less_Least by blast
  have "rtcp_loop lib sender (replicate 1500 0) 0 [] =
      Some ([] @ replicate (Suc n) (Call_Read sender (length (replicate 1500 (0::8 word)))))"
    by (rule rtcp_loop_returns) (use fails before in simp_all)
  then have "rtcp_drain lib sender = Some (replicate (Suc n) (Call_Read sender 1500))"
    by (simp add: rtcp_drain_def)
  moreover have "logs (replicate (Suc n) (Call_Read sender 1500)) = []"
    by (simp add: logs_def)
  ultimately show "\<exists>n. rtcp_drain lib sender = Some (replicate (Suc n) (Call_Read sender 1500)) \<and>
      snd (Read lib sender n 1500) \<noteq> None \<and>
      (\<forall>j<n. snd (Read lib sender j 1500) = None) \<and>
      logs (replicate (Suc n) (Call_Read sender 1500)) = []"
    using fails before by blast
next
  assume never: "\<forall>k. snd (Read lib sender k 1500) = None"
  show "rtcp_drain lib sender = None"
  proof (cases "rtcp_drain lib sender")
    case None
    then show ?thesis .
  next
    case (Some y)
    then have "rtcp_loop lib sender (replicate 1500 0) 0 [] = Some y"
      by (simp add: rtcp_drain_def)
    from rtcp_loop_Some_fails [OF this] never show ?thesis
      by simp
  qed
qed

theorem rtcp_drain_returns_witness:
  "ret_err (CreatePeer lib_ok ''viewer-1'' session_ok world_lite) = None \<and>
   drains (ret_events (CreatePeer lib_ok ''viewer-1'' session_ok world_lite)) = [1, 2] \<and>
   snd (Read lib_ok 1 2 1500) \<noteq> None \<and>
   rtcp_drain lib_ok 1 = Some [Call_Read 1 1500, Call_Read 1 1500, Call_Read 1 1500] \<and>
   rtcp_drain (lib_ok\<lparr>Read := (\<lambda>s k n. (0, None))\<rparr>) 1 = None"
proof -
  have e: "ret_err (CreatePeer lib_ok ''viewer-1'' session_ok world_lite) = None"
    by code_simp
  have d: "drains (ret_events (CreatePeer lib_ok ''viewer-1'' session_ok world_lite)) = [1, 2]"
    by code_simp
  have f: "snd (Read lib_ok 1 2 1500) \<noteq> None"
    by (simp add: lib_ok_def)
  then have x: "\<exists>k. snd (Read lib_ok 1 k 1500) \<noteq> None" ..
  have r: "rtcp_drain lib_ok 1 = Some [Call_Read 1 1500, Call_Read 1 1500, Call_Read 1 1500]"
    by (simp add: rtcp_drain_def rtcp_loop.simps lib_ok_def)
  have n: "\<forall>k. snd (Read (lib_ok\<lparr>Read := (\<lambda>s k n. (0, None))\<rparr>) 1 k 1500) = None"
    by simp
  show ?thesis
    using e d f x r n
      rtcp_drain_returns [of lib_ok "''viewer-1''" session_ok world_lite 1]
      rtcp_drain_returns [of "lib_ok\<lparr>Read := (\<lambda>s k n. (0, None))\<rparr>" "''viewer-1''"
        session_ok world_lite 1]
    by simp
qed

end
